theory Spec2Isabelle
  imports Main "HOL-Library.Multiset" "HOL-Library.Char_ord" "HOL-Library.List_Lexorder"
begin

section \<open>JavaScript values used by the stores\<close>

text \<open>
  A string-valued expression that may be \<open>undefined\<close> or \<open>null\<close> is a
  \<open>string option\<close>. The operator \<open>||\<close> yields its left operand when that is truthy
  (a non-empty string) and its right operand otherwise.
\<close>

definition truthy :: "string option \<Rightarrow> bool" where
  "truthy v = (case v of None \<Rightarrow> False | Some s \<Rightarrow> s \<noteq> [])"

definition js_or :: "string option \<Rightarrow> string option \<Rightarrow> string option" where
  "js_or a b = (if truthy a then a else b)"

definition or_default :: "string option \<Rightarrow> string \<Rightarrow> string" where
  "or_default a d = (case a of None \<Rightarrow> d | Some s \<Rightarrow> if s = [] then d else s)"

text \<open>
  The exception object \<open>e\<close> caught by a store action: the two places the stores read,
  \<open>e.response?.data?.detail\<close> and \<open>e.message\<close>.
\<close>

record api_error =
  response_detail :: "string option"
  message :: "string option"

text \<open>\<open>e.response?.data?.detail || e.message || dflt\<close>\<close>

definition detail_or_message :: "api_error \<Rightarrow> string \<Rightarrow> string" where
  "detail_or_message e dflt = or_default (js_or (response_detail e) (message e)) dflt"

text \<open>\<open>e.message || dflt\<close>\<close>

definition message_or :: "api_error \<Rightarrow> string \<Rightarrow> string" where
  "message_or e dflt = or_default (message e) dflt"

text \<open>Cell values of a result row (\<open>any\<close> in the source).\<close>

datatype cell = CNull | CNum int | CStr string | CBool bool

subsection \<open>Arrays as references\<close>

text \<open>
  JavaScript arrays are objects: \<open>reverse\<close> and \<open>sort\<close> change the array they are
  called on, \<open>slice\<close> and the spread \<open>[...xs]\<close> build a new one. The array store is
  the list of all arrays allocated so far; a reference is an index into it.
\<close>

type_synonym 'a arrays = "'a list list"

definition array_new :: "'a list \<Rightarrow> 'a arrays \<Rightarrow> 'a arrays \<times> nat" where
  "array_new xs h = (h @ [xs], length h)"

text \<open>\<open>xs.slice(start)\<close>: a negative start counts from the end, clamped to the array.\<close>

definition slice_elems :: "int \<Rightarrow> 'a list \<Rightarrow> 'a list" where
  "slice_elems start xs =
     (let n = int (length xs);
          k = (if start < 0 then max (n + start) 0 else min start n)
      in drop (nat k) xs)"

definition array_slice :: "nat \<Rightarrow> int \<Rightarrow> 'a arrays \<Rightarrow> 'a arrays \<times> nat" where
  "array_slice a start h = array_new (slice_elems start (h ! a)) h"

definition array_spread :: "nat \<Rightarrow> 'a arrays \<Rightarrow> 'a arrays \<times> nat" where
  "array_spread a h = array_new (h ! a) h"

text \<open>\<open>xs.reverse()\<close> reverses in place and returns the same reference.\<close>

definition array_reverse :: "nat \<Rightarrow> 'a arrays \<Rightarrow> 'a arrays \<times> nat" where
  "array_reverse a h = (h[a := rev (h ! a)], a)"

text \<open>
  \<open>xs.sort(cmp)\<close> sorts in place and returns the same reference. The sort is stable;
  for a consistent comparator the result is the one insertion sort computes: an element
  goes in front of the first later element it does not compare greater than.
\<close>

fun insert_by :: "('a \<Rightarrow> 'a \<Rightarrow> int) \<Rightarrow> 'a \<Rightarrow> 'a list \<Rightarrow> 'a list" where
  "insert_by cmp x [] = [x]"
| "insert_by cmp x (y # ys) = (if cmp x y \<le> 0 then x # y # ys else y # insert_by cmp x ys)"

fun sort_by :: "('a \<Rightarrow> 'a \<Rightarrow> int) \<Rightarrow> 'a list \<Rightarrow> 'a list" where
  "sort_by cmp [] = []"
| "sort_by cmp (x # xs) = insert_by cmp x (sort_by cmp xs)"

definition array_sort :: "('a \<Rightarrow> 'a \<Rightarrow> int) \<Rightarrow> nat \<Rightarrow> 'a arrays \<Rightarrow> 'a arrays \<times> nat" where
  "array_sort cmp a h = (h[a := sort_by cmp (h ! a)], a)"

section \<open>Types (types/index.ts)\<close>

datatype result_type = TypeTable | TypeOk | TypeError

record QueryResult =
  qr_type :: result_type
  qr_columns :: "string list"
  qr_data :: "cell list list"
  qr_row_count :: int
  qr_error :: "string option"
  qr_execution_time :: "int option"

record Model =
  model_name :: string
  model_status :: string
  model_predict :: "string option"
  model_engine :: "string option"

record Job =
  job_name :: string
  job_schedule :: "string option"
  job_next_run :: "string option"

record KnowledgeBase =
  kb_name :: string
  kb_model :: "string option"

record MindsDBStatus =
  connected :: bool
  version :: "string option"
  status_error :: "string option"

section \<open>Query store (stores/query.ts)\<close>

text \<open>An entry of \<open>queryHistory\<close>; the timestamp is the clock reading of \<open>new Date()\<close>.\<close>

record history_entry =
  query :: string
  timestamp :: nat
  success :: bool

record query_store =
  currentQuery :: string
  queryResult :: "QueryResult option"
  queryHistory :: "history_entry list"
  models :: "Model list"
  jobs :: "Job list"
  knowledgeBases :: "KnowledgeBase list"
  status :: "MindsDBStatus option"
  loading :: bool
  error :: "string option"

text \<open>
  The getter \<open>queryHistory.value.slice(-10).reverse()\<close>, run on an array store that
  holds the log at reference 0. It returns the view together with the store, whose log
  is read back from reference 0 after the call.
\<close>

definition lastQueries :: "query_store \<Rightarrow> history_entry list \<times> query_store" where
  "lastQueries s =
     (let h0 = [queryHistory s];
          (h1, a1) = array_slice 0 (- 10) h0;
          (h2, a2) = array_reverse a1 h1
      in (h2 ! a2, s\<lparr>queryHistory := h2 ! 0\<rparr>))"

text \<open>
  An asynchronous action runs in two synchronous steps: up to its \<open>await\<close>, and from
  the settled promise to its return. The promise of an API call settles with
  \<open>Inr\<close> of the response body or \<open>Inl\<close> of the thrown error. The state between the two
  steps is what the rest of the application can observe while the call is pending.
\<close>

definition executeQuery_begin :: "string \<Rightarrow> query_store \<Rightarrow> query_store" where
  "executeQuery_begin q s = s\<lparr>loading := True, error := None, currentQuery := q\<rparr>"

definition executeQuery_resume ::
  "string \<Rightarrow> nat \<Rightarrow> api_error + QueryResult \<Rightarrow> query_store \<Rightarrow> QueryResult \<times> query_store" where
  "executeQuery_resume q now resp s =
     (case resp of
        Inr r \<Rightarrow>
          (let s1 = s\<lparr>queryResult := Some r\<rparr>;
               s2 = s1\<lparr>queryHistory := queryHistory s1 @
                      [\<lparr>query = q, timestamp = now, success = (qr_type r \<noteq> TypeError)\<rparr>]\<rparr>;
               s3 = (if qr_type r = TypeError
                     then s2\<lparr>error := Some (or_default (qr_error r) ''Query execution failed'')\<rparr>
                     else s2)
           in (r, s3\<lparr>loading := False\<rparr>))
      | Inl e \<Rightarrow>
          (let s1 = s\<lparr>error := Some (detail_or_message e ''Failed to execute query'')\<rparr>;
               r = \<lparr>qr_type = TypeError, qr_columns = [], qr_data = [], qr_row_count = 0,
                    qr_error = js_or (error s1) None, qr_execution_time = None\<rparr>;
               s2 = s1\<lparr>queryResult := Some r\<rparr>
           in (r, s2\<lparr>loading := False\<rparr>)))"

definition executeQuery ::
  "string \<Rightarrow> nat \<Rightarrow> api_error + QueryResult \<Rightarrow> query_store \<Rightarrow> QueryResult \<times> query_store" where
  "executeQuery q now resp s = executeQuery_resume q now resp (executeQuery_begin q s)"

text \<open>The three catalog refreshes assign nothing before their \<open>await\<close>.\<close>

definition fetchModels :: "api_error + Model list \<Rightarrow> query_store \<Rightarrow> query_store" where
  "fetchModels resp s =
     (case resp of
        Inr ms \<Rightarrow> s\<lparr>models := ms\<rparr>
      | Inl e \<Rightarrow> s\<lparr>error := Some (message_or e ''Failed to fetch models'')\<rparr>)"

definition fetchJobs :: "api_error + Job list \<Rightarrow> query_store \<Rightarrow> query_store" where
  "fetchJobs resp s =
     (case resp of
        Inr js \<Rightarrow> s\<lparr>jobs := js\<rparr>
      | Inl e \<Rightarrow> s\<lparr>error := Some (message_or e ''Failed to fetch jobs'')\<rparr>)"

definition fetchKnowledgeBases :: "api_error + KnowledgeBase list \<Rightarrow> query_store \<Rightarrow> query_store" where
  "fetchKnowledgeBases resp s =
     (case resp of
        Inr ks \<Rightarrow> s\<lparr>knowledgeBases := ks\<rparr>
      | Inl e \<Rightarrow> s\<lparr>error := Some (message_or e ''Failed to fetch knowledge bases'')\<rparr>)"

text \<open>
  Callers start the three refreshes together; each continuation runs when its own
  promise settles, so a run is the three continuations in some order.
\<close>

datatype refresh =
    FetchModels "api_error + Model list"
  | FetchJobs "api_error + Job list"
  | FetchKnowledgeBases "api_error + KnowledgeBase list"

fun settle :: "refresh \<Rightarrow> query_store \<Rightarrow> query_store" where
  "settle (FetchModels r) s = fetchModels r s"
| "settle (FetchJobs r) s = fetchJobs r s"
| "settle (FetchKnowledgeBases r) s = fetchKnowledgeBases r s"

fun settle_all :: "refresh list \<Rightarrow> query_store \<Rightarrow> query_store" where
  "settle_all [] s = s"
| "settle_all (c # cs) s = settle_all cs (settle c s)"

definition init_query_store :: query_store where
  "init_query_store =
     \<lparr>currentQuery = [], queryResult = None, queryHistory = [], models = [], jobs = [],
      knowledgeBases = [], status = None, loading = False, error = None\<rparr>"

section \<open>Datasource types (types/index.ts)\<close>

datatype field_kind = FieldText | FieldNumber | FieldPassword

record DataSourceField =
  field_name :: string
  field_label :: string
  field_type :: field_kind
  field_required :: bool
  field_default :: "cell option"

record DataSourceTypeConfig =
  type_id :: string
  display_name :: string
  icon :: string
  type_fields :: "DataSourceField list"

record DataSource =
  ds_name :: string
  ds_engine :: string
  ds_tables :: "string list"

record TableColumn =
  col_name :: string
  col_type :: string
  col_nullable :: "string option"
  col_key :: "string option"

record TableSchema =
  schema_table :: string
  schema_columns :: "TableColumn list"

record TableData =
  td_columns :: "string list"
  td_data :: "cell list list"
  td_total_rows :: int

section \<open>Datasource store (stores/datasources.ts)\<close>

text \<open>The calls of \<open>datasourcesApi\<close> an action issues, with their arguments.\<close>

datatype request =
    Req_getTypes
  | Req_list
  | Req_create string string "(string \<times> cell) list"
  | Req_delete string
  | Req_getTables string
  | Req_getTableSchema string string
  | Req_getSampleData string string nat

record datasources_store =
  datasources :: "DataSource list"
  datasourceTypes :: "DataSourceTypeConfig list"
  selectedDatasource :: "DataSource option"
  tables :: "string list"
  selectedTable :: "string option"
  tableSchema :: "TableSchema option"
  tableData :: "TableData option"
  loading :: bool
  error :: "string option"

definition init_datasources_store :: datasources_store where
  "init_datasources_store =
     \<lparr>datasources = [], datasourceTypes = [], selectedDatasource = None, tables = [],
      selectedTable = None, tableSchema = None, tableData = None, loading = False,
      error = None\<rparr>"

text \<open>
  The getter \<open>[...datasources.value].sort((a, b) => a.name.localeCompare(b.name))\<close>,
  run on an array store that holds the catalog at reference 0. \<open>localeCompare\<close> is the
  runtime's collation of two strings (negative, zero or positive) and is a parameter.
\<close>

definition sortedDatasources ::
  "(string \<Rightarrow> string \<Rightarrow> int) \<Rightarrow> datasources_store \<Rightarrow> DataSource list \<times> datasources_store" where
  "sortedDatasources localeCompare s =
     (let h0 = [datasources s];
          (h1, a1) = array_spread 0 h0;
          (h2, a2) = array_sort (\<lambda>a b. localeCompare (ds_name a) (ds_name b)) a1 h1
      in (h2 ! a2, s\<lparr>datasources := h2 ! 0\<rparr>))"

text \<open>
  Each action below is given as its step up to the \<open>await\<close> (the state left there and
  the requests issued), its continuation from the settled promise, and their composition.
\<close>

definition fetchTypes_begin :: "datasources_store \<Rightarrow> datasources_store \<times> request list" where
  "fetchTypes_begin s = (s, [Req_getTypes])"

definition fetchTypes_resume ::
  "api_error + DataSourceTypeConfig list \<Rightarrow> datasources_store \<Rightarrow> datasources_store" where
  "fetchTypes_resume resp s =
     (case resp of
        Inr ts \<Rightarrow> s\<lparr>datasourceTypes := ts\<rparr>
      | Inl e \<Rightarrow> s\<lparr>error := Some (message_or e ''Failed to fetch data source types'')\<rparr>)"

definition fetchTypes ::
  "api_error + DataSourceTypeConfig list \<Rightarrow> datasources_store \<Rightarrow> datasources_store" where
  "fetchTypes resp s = fetchTypes_resume resp (fst (fetchTypes_begin s))"

definition fetchDatasources_begin :: "datasources_store \<Rightarrow> datasources_store \<times> request list" where
  "fetchDatasources_begin s = (s\<lparr>loading := True, error := None\<rparr>, [Req_list])"

definition fetchDatasources_resume ::
  "api_error + DataSource list \<Rightarrow> datasources_store \<Rightarrow> datasources_store" where
  "fetchDatasources_resume resp s =
     (case resp of
        Inr dss \<Rightarrow> s\<lparr>datasources := dss\<rparr>
      | Inl e \<Rightarrow> s\<lparr>error := Some (message_or e ''Failed to fetch data sources'')\<rparr>)
     \<lparr>loading := False\<rparr>"

definition fetchDatasources ::
  "api_error + DataSource list \<Rightarrow> datasources_store \<Rightarrow> datasources_store" where
  "fetchDatasources resp s = fetchDatasources_resume resp (fst (fetchDatasources_begin s))"

definition createDatasource_begin ::
  "string \<Rightarrow> string \<Rightarrow> (string \<times> cell) list \<Rightarrow> datasources_store \<Rightarrow>
   datasources_store \<times> request list" where
  "createDatasource_begin name engine parameters s =
     (s\<lparr>loading := True, error := None\<rparr>, [Req_create name engine parameters])"

definition createDatasource_resume ::
  "api_error + DataSource \<Rightarrow> datasources_store \<Rightarrow> bool \<times> datasources_store" where
  "createDatasource_resume resp s =
     (case resp of
        Inr newDatasource \<Rightarrow>
          (True, s\<lparr>datasources := datasources s @ [newDatasource]\<rparr>\<lparr>loading := False\<rparr>)
      | Inl e \<Rightarrow>
          (False, s\<lparr>error := Some (detail_or_message e ''Failed to create data source'')\<rparr>
                   \<lparr>loading := False\<rparr>))"

definition createDatasource ::
  "string \<Rightarrow> string \<Rightarrow> (string \<times> cell) list \<Rightarrow> api_error + DataSource \<Rightarrow>
   datasources_store \<Rightarrow> bool \<times> datasources_store" where
  "createDatasource name engine parameters resp s =
     createDatasource_resume resp (fst (createDatasource_begin name engine parameters s))"

definition deleteDatasource_begin ::
  "string \<Rightarrow> datasources_store \<Rightarrow> datasources_store \<times> request list" where
  "deleteDatasource_begin name s = (s\<lparr>loading := True, error := None\<rparr>, [Req_delete name])"

definition deleteDatasource_resume ::
  "string \<Rightarrow> api_error + string \<Rightarrow> datasources_store \<Rightarrow> bool \<times> datasources_store" where
  "deleteDatasource_resume name resp s =
     (case resp of
        Inr ack \<Rightarrow>
          (let s1 = s\<lparr>datasources := filter (\<lambda>ds. ds_name ds \<noteq> name) (datasources s)\<rparr>;
               s2 = (if (case selectedDatasource s1 of None \<Rightarrow> False | Some d \<Rightarrow> ds_name d = name)
                     then s1\<lparr>selectedDatasource := None, tables := [], selectedTable := None,
                             tableSchema := None, tableData := None\<rparr>
                     else s1)
           in (True, s2\<lparr>loading := False\<rparr>))
      | Inl e \<Rightarrow>
          (False, s\<lparr>error := Some (detail_or_message e ''Failed to delete data source'')\<rparr>
                   \<lparr>loading := False\<rparr>))"

definition deleteDatasource ::
  "string \<Rightarrow> api_error + string \<Rightarrow> datasources_store \<Rightarrow> bool \<times> datasources_store" where
  "deleteDatasource name resp s =
     deleteDatasource_resume name resp (fst (deleteDatasource_begin name s))"

definition fetchTables_begin ::
  "string \<Rightarrow> datasources_store \<Rightarrow> datasources_store \<times> request list" where
  "fetchTables_begin datasourceName s =
     (s\<lparr>loading := True, error := None\<rparr>, [Req_getTables datasourceName])"

definition fetchTables_resume ::
  "api_error + string list \<Rightarrow> datasources_store \<Rightarrow> datasources_store" where
  "fetchTables_resume resp s =
     (case resp of
        Inr ts \<Rightarrow> s\<lparr>tables := ts\<rparr>
      | Inl e \<Rightarrow> s\<lparr>error := Some (detail_or_message e ''Failed to fetch tables''), tables := []\<rparr>)
     \<lparr>loading := False\<rparr>"

definition fetchTables ::
  "string \<Rightarrow> api_error + string list \<Rightarrow> datasources_store \<Rightarrow> datasources_store" where
  "fetchTables datasourceName resp s =
     fetchTables_resume resp (fst (fetchTables_begin datasourceName s))"

definition selectDatasource ::
  "DataSource \<Rightarrow> api_error + string list \<Rightarrow> datasources_store \<Rightarrow> datasources_store" where
  "selectDatasource datasource resp s =
     fetchTables (ds_name datasource) resp
       (s\<lparr>selectedDatasource := Some datasource, selectedTable := None,
          tableSchema := None, tableData := None\<rparr>)"

text \<open>
  \<open>Promise.all\<close> of two promises: fulfilled with both values when both fulfil,
  rejected with the reason of the promise that rejects first. Which of two rejections
  comes first is decided by the environment (\<open>second_first\<close>).
\<close>

fun promise_all2 :: "bool \<Rightarrow> api_error + 'a \<Rightarrow> api_error + 'b \<Rightarrow> api_error + 'a \<times> 'b" where
  "promise_all2 second_first (Inr a) (Inr b) = Inr (a, b)"
| "promise_all2 second_first (Inl e) (Inr b) = Inl e"
| "promise_all2 second_first (Inr a) (Inl e) = Inl e"
| "promise_all2 second_first (Inl e1) (Inl e2) = Inl (if second_first then e2 else e1)"

text \<open>\<open>None\<close>: the guard \<open>if (!selectedDatasource.value) return\<close> fired.\<close>

definition selectTable_begin ::
  "string \<Rightarrow> datasources_store \<Rightarrow> (datasources_store \<times> request list) option" where
  "selectTable_begin tableName s =
     (case selectedDatasource s of
        None \<Rightarrow> None
      | Some d \<Rightarrow>
          Some (s\<lparr>selectedTable := Some tableName, loading := True, error := None\<rparr>,
                [Req_getTableSchema (ds_name d) tableName,
                 Req_getSampleData (ds_name d) tableName 10]))"

definition selectTable_resume ::
  "api_error + TableSchema \<times> TableData \<Rightarrow> datasources_store \<Rightarrow> datasources_store" where
  "selectTable_resume settled s =
     (case settled of
        Inr (schemaResponse, dataResponse) \<Rightarrow>
          s\<lparr>tableSchema := Some schemaResponse\<rparr>\<lparr>tableData := Some dataResponse\<rparr>
      | Inl e \<Rightarrow> s\<lparr>error := Some (detail_or_message e ''Failed to fetch table info'')\<rparr>)
     \<lparr>loading := False\<rparr>"

definition selectTable ::
  "string \<Rightarrow> bool \<Rightarrow> api_error + TableSchema \<Rightarrow> api_error + TableData \<Rightarrow>
   datasources_store \<Rightarrow> datasources_store" where
  "selectTable tableName second_first schemaResp dataResp s =
     (case selectTable_begin tableName s of
        None \<Rightarrow> s
      | Some (s1, reqs) \<Rightarrow> selectTable_resume (promise_all2 second_first schemaResp dataResp) s1)"

definition selectTable_requests :: "string \<Rightarrow> datasources_store \<Rightarrow> request list" where
  "selectTable_requests tableName s =
     (case selectTable_begin tableName s of None \<Rightarrow> [] | Some (s1, reqs) \<Rightarrow> reqs)"

text \<open>
  The states of the store that other code can see once \<open>selectTable\<close> has been
  called: the state at the \<open>await\<close> (if it is reached) and the state at return.
\<close>

definition selectTable_observable ::
  "string \<Rightarrow> bool \<Rightarrow> api_error + TableSchema \<Rightarrow> api_error + TableData \<Rightarrow>
   datasources_store \<Rightarrow> datasources_store list" where
  "selectTable_observable tableName second_first schemaResp dataResp s =
     (case selectTable_begin tableName s of
        None \<Rightarrow> [s]
      | Some (s1, reqs) \<Rightarrow>
          [s1, selectTable_resume (promise_all2 second_first schemaResp dataResp) s1])"

section \<open>Materialized-table SQL preview (views/MaterializedTables.vue)\<close>

text \<open>\<open>xs.join(sep)\<close>\<close>

fun join :: "string \<Rightarrow> string list \<Rightarrow> string" where
  "join sep [] = []"
| "join sep [x] = x"
| "join sep (x # y # ys) = x @ sep @ join sep (y # ys)"

text \<open>
  The text of a number inside a template literal, for the integer values a double holds
  exactly and prints in full (magnitude up to \<open>2^53\<close>): its decimal digits, with a
  leading minus sign when negative. Fractional limits and larger magnitudes, which print
  with a fraction or rounded digits, are outside this model: \<open>limitRows\<close> below ranges
  over integers.
\<close>

fun string_of_nat :: "nat \<Rightarrow> string" where
  "string_of_nat n =
     (if n < 10 then [char_of (48 + n)]
      else string_of_nat (n div 10) @ [char_of (48 + n mod 10)])"

declare string_of_nat.simps [simp del]

definition number_to_string :: "int \<Rightarrow> string" where
  "number_to_string i = (if i < 0 then ''-'' @ string_of_nat (nat (- i)) else string_of_nat (nat i))"

definition newline :: char where
  "newline = CHR 0x0A"

definition placeholder :: string where
  "placeholder = ''-- Fill in the form to generate SQL''"

text \<open>
  \<open>sqlPreview\<close> as a function of the refs it reads. An empty string is falsy, and so
  are a limit that is \<open>undefined\<close> (\<open>None\<close>) and the limit 0.
\<close>

definition sqlPreview ::
  "string \<Rightarrow> string \<Rightarrow> string \<Rightarrow> string list \<Rightarrow> string \<Rightarrow> int option \<Rightarrow> string" where
  "sqlPreview tableName selectedDatabase selectedTable' selectedColumns whereClause limitRows =
     (if tableName = [] \<or> selectedDatabase = [] \<or> selectedTable' = [] then placeholder
      else
        let cols = (if length selectedColumns > 0 then join '', '' selectedColumns else ''*'');
            sql = ''CREATE TABLE mindsdb.'' @ tableName @ '' AS'' @ [newline] @
                  ''SELECT '' @ cols @ [newline] @
                  ''FROM '' @ selectedDatabase @ ''.'' @ selectedTable';
            sql1 = (if whereClause \<noteq> [] then sql @ [newline] @ ''WHERE '' @ whereClause else sql);
            sql2 = (case limitRows of
                      None \<Rightarrow> sql1
                    | Some n \<Rightarrow>
                        if n \<noteq> 0 then sql1 @ [newline] @ ''LIMIT '' @ number_to_string n
                        else sql1)
        in sql2 @ '';'')"

section \<open>Example values\<close>

text \<open>
  A comparator that orders strings by their code units, standing in for a locale's
  collation where a concrete one is needed.
\<close>

definition code_unit_compare :: "string \<Rightarrow> string \<Rightarrow> int" where
  "code_unit_compare a b = (if a < b then - 1 else if a = b then 0 else 1)"

definition network_error :: api_error where
  "network_error = \<lparr>response_detail = None, message = Some ''Network Error''\<rparr>"

definition rejected_request :: api_error where
  "rejected_request =
     \<lparr>response_detail = Some ''Table not found'',
      message = Some ''Request failed with status code 400''\<rparr>"

definition churn_model :: Model where
  "churn_model = \<lparr>model_name = ''churn'', model_status = ''complete'',
     model_predict = Some ''churned'', model_engine = None\<rparr>"

definition docs_kb :: KnowledgeBase where
  "docs_kb = \<lparr>kb_name = ''docs'', kb_model = None\<rparr>"

definition mysql_db :: DataSource where
  "mysql_db = \<lparr>ds_name = ''mysql_db'', ds_engine = ''mysql'', ds_tables = [''orders'']\<rparr>"

definition analytics_pg :: DataSource where
  "analytics_pg = \<lparr>ds_name = ''analytics_pg'', ds_engine = ''postgres'', ds_tables = []\<rparr>"

definition orders_schema :: TableSchema where
  "orders_schema =
     \<lparr>schema_table = ''orders'',
      schema_columns =
        [\<lparr>col_name = ''id'', col_type = ''int'', col_nullable = None, col_key = Some ''PRI''\<rparr>]\<rparr>"

definition orders_sample :: TableData where
  "orders_sample = \<lparr>td_columns = [''id''], td_data = [[CNum 1]], td_total_rows = 1\<rparr>"

definition customers_schema :: TableSchema where
  "customers_schema = \<lparr>schema_table = ''customers'', schema_columns = []\<rparr>"

text \<open>A store in which \<open>mysql_db\<close> is selected and its table \<open>orders\<close> is shown.\<close>

definition browsing_store :: datasources_store where
  "browsing_store = init_datasources_store
     \<lparr>datasources := [mysql_db, analytics_pg], selectedDatasource := Some mysql_db,
      tables := [''orders'', ''customers''], selectedTable := Some ''orders'',
      tableSchema := Some orders_schema, tableData := Some orders_sample\<rparr>"

text \<open>A store that still shows the error of an earlier failed action.\<close>

definition stale_error_store :: datasources_store where
  "stale_error_store = init_datasources_store\<lparr>error := Some ''Failed to fetch data sources''\<rparr>"

section \<open>Query store: properties\<close>

lemma slice_elems_last10: "slice_elems (- 10) xs = drop (length xs - 10) xs"
  by (simp add: slice_elems_def Let_def max_def nat_diff_distrib')

lemma lastQueries_eq: "lastQueries s = (rev (drop (length (queryHistory s) - 10) (queryHistory s)), s)"
  by (simp add: lastQueries_def array_slice_def array_new_def array_reverse_def slice_elems_last10)

text \<open>
  C7: for a log of length N the recent-queries view has exactly min N 10 entries, it is
  the last min N 10 entries of the log in reverse order, and computing it leaves the
  log (and the rest of the store) as it was.
\<close>

theorem lastQueries_view:
  "length (fst (lastQueries s)) = min (length (queryHistory s)) 10 \<and>
   fst (lastQueries s) =
     rev (drop (length (queryHistory s) - min (length (queryHistory s)) 10) (queryHistory s)) \<and>
   queryHistory (snd (lastQueries s)) = queryHistory s \<and>
   snd (lastQueries s) = s"
proof -
  let ?n = "length (queryHistory s)"
  have m: "?n - min ?n 10 = ?n - 10" by simp
  show ?thesis unfolding lastQueries_eq m by simp
qed

lemma detail_or_message_nonempty: "d \<noteq> [] \<Longrightarrow> detail_or_message e d \<noteq> []"
  by (auto simp: detail_or_message_def or_default_def js_or_def truthy_def split: option.splits)

text \<open>
  C1 (amended): when the server returns a result, \<open>executeQuery q\<close> appends exactly
  one entry to the history log, carrying the query text \<open>q\<close> and
  success = (result kind is not error); when the transport fails and an error result
  is synthesized locally, no entry is appended and the log is left as it was.
\<close>

theorem executeQuery_history:
  "queryHistory (snd (executeQuery q now (Inr r) s)) =
     queryHistory s @ [\<lparr>query = q, timestamp = now, success = (qr_type r \<noteq> TypeError)\<rparr>] \<and>
   queryHistory (snd (executeQuery q now (Inl e) s)) = queryHistory s"
  by (simp add: executeQuery_def executeQuery_resume_def executeQuery_begin_def Let_def)

text \<open>
  C1 as stated fails on the transport-failure path: after a failed \<open>SELECT 1\<close> on the
  initial store the log is still empty, not one entry longer.
\<close>

theorem executeQuery_history_counterexample:
  "queryHistory (snd (executeQuery ''SELECT 1'' 0 (Inl network_error) init_query_store)) = [] \<and>
   length (queryHistory (snd (executeQuery ''SELECT 1'' 0 (Inl network_error) init_query_store)))
     \<noteq> Suc (length (queryHistory init_query_store))"
  by (simp add: executeQuery_def executeQuery_resume_def executeQuery_begin_def Let_def
      init_query_store_def)

lemma detail_or_message_cases:
  "detail_or_message e dflt =
     (case response_detail e of
        Some d \<Rightarrow>
          if d \<noteq> [] then d
          else (case message e of Some m \<Rightarrow> if m \<noteq> [] then m else dflt | None \<Rightarrow> dflt)
      | None \<Rightarrow> (case message e of Some m \<Rightarrow> if m \<noteq> [] then m else dflt | None \<Rightarrow> dflt))"
  by (simp add: detail_or_message_def or_default_def js_or_def truthy_def split: option.splits)

text \<open>
  C4: when the API call throws, \<open>executeQuery\<close> returns (it is a total function of the
  settled promise: the error is consumed by the catch branch) a result of kind error with
  no columns, no rows, row count 0 and the failure message; that result is stored, and
  the message, which is never empty, is the store's error field. The failure message is
  the caught error's \<open>response.data.detail\<close> when that is a non-empty string, else its
  \<open>message\<close> when that is a non-empty string, else \<open>Failed to execute query\<close>.
\<close>

theorem executeQuery_transport_failure:
  "fst (executeQuery q now (Inl e) s) =
     \<lparr>qr_type = TypeError, qr_columns = [], qr_data = [], qr_row_count = 0,
      qr_error = Some (detail_or_message e ''Failed to execute query''),
      qr_execution_time = None\<rparr> \<and>
   queryResult (snd (executeQuery q now (Inl e) s)) = Some (fst (executeQuery q now (Inl e) s)) \<and>
   query_store.error (snd (executeQuery q now (Inl e) s)) =
     Some (detail_or_message e ''Failed to execute query'') \<and>
   detail_or_message e ''Failed to execute query'' \<noteq> [] \<and>
   \<not> query_store.loading (snd (executeQuery q now (Inl e) s)) \<and>
   query_store.error (snd (executeQuery q now (Inl e) s)) =
     Some (case response_detail e of
        Some d \<Rightarrow>
          if d \<noteq> [] then d
          else (case message e of
                  Some m \<Rightarrow> if m \<noteq> [] then m else ''Failed to execute query''
                | None \<Rightarrow> ''Failed to execute query'')
      | None \<Rightarrow>
          (case message e of
             Some m \<Rightarrow> if m \<noteq> [] then m else ''Failed to execute query''
           | None \<Rightarrow> ''Failed to execute query'')) \<and>
   qr_error (fst (executeQuery q now (Inl e) s)) = query_store.error (snd (executeQuery q now (Inl e) s))"
proof -
  let ?m = "detail_or_message e ''Failed to execute query''"
  have ne: "?m \<noteq> []" by (rule detail_or_message_nonempty) simp
  have r: "fst (executeQuery q now (Inl e) s) =
     \<lparr>qr_type = TypeError, qr_columns = [], qr_data = [], qr_row_count = 0,
      qr_error = Some ?m, qr_execution_time = None\<rparr>"
    using ne
    by (simp add: executeQuery_def executeQuery_resume_def executeQuery_begin_def Let_def
        js_or_def truthy_def)
  have st: "queryResult (snd (executeQuery q now (Inl e) s)) = Some (fst (executeQuery q now (Inl e) s))"
    by (simp add: executeQuery_def executeQuery_resume_def executeQuery_begin_def Let_def)
  have er: "query_store.error (snd (executeQuery q now (Inl e) s)) = Some ?m"
    by (simp add: executeQuery_def executeQuery_resume_def executeQuery_begin_def Let_def)
  have ld: "\<not> query_store.loading (snd (executeQuery q now (Inl e) s))"
    by (simp add: executeQuery_def executeQuery_resume_def executeQuery_begin_def Let_def)
  have pin: "query_store.error (snd (executeQuery q now (Inl e) s)) =
     Some (case response_detail e of
        Some d \<Rightarrow>
          if d \<noteq> [] then d
          else (case message e of
                  Some m \<Rightarrow> if m \<noteq> [] then m else ''Failed to execute query''
                | None \<Rightarrow> ''Failed to execute query'')
      | None \<Rightarrow>
          (case message e of
             Some m \<Rightarrow> if m \<noteq> [] then m else ''Failed to execute query''
           | None \<Rightarrow> ''Failed to execute query''))"
    unfolding er detail_or_message_cases [of e "''Failed to execute query''"] by (rule refl)
  have same: "qr_error (fst (executeQuery q now (Inl e) s)) =
      query_store.error (snd (executeQuery q now (Inl e) s))"
    by (simp add: r er)
  show ?thesis
    by (intro conjI) (rule r, rule st, rule er, rule ne, rule ld, rule pin, rule same)
qed

text \<open>
  The three sources of the failure message: the error's message, the server's detail,
  and the default text.
\<close>

theorem executeQuery_transport_failure_witness:
  "fst (executeQuery ''SELECT 1'' 0 (Inl network_error) init_query_store) =
     \<lparr>qr_type = TypeError, qr_columns = [], qr_data = [], qr_row_count = 0,
      qr_error = Some ''Network Error'', qr_execution_time = None\<rparr> \<and>
   query_store.error (snd (executeQuery ''SELECT 1'' 0 (Inl network_error) init_query_store)) =
     Some ''Network Error'' \<and>
   query_store.error (snd (executeQuery ''SELECT 1'' 0 (Inl rejected_request) init_query_store)) =
     Some ''Table not found'' \<and>
   query_store.error (snd (executeQuery ''SELECT 1'' 0
       (Inl \<lparr>response_detail = None, message = None\<rparr>) init_query_store)) =
     Some ''Failed to execute query''"
  using executeQuery_transport_failure [of "''SELECT 1''" 0 network_error init_query_store]
    executeQuery_transport_failure [of "''SELECT 1''" 0 rejected_request init_query_store]
    executeQuery_transport_failure [of "''SELECT 1''" 0
      "\<lparr>response_detail = None, message = None\<rparr>" init_query_store]
  by (simp add: network_error_def rejected_request_def detail_or_message_def or_default_def
      js_or_def truthy_def)

lemma perm3:
  assumes "mset cs = mset [a, b, c]"
  shows "cs \<in> {[a,b,c],[a,c,b],[b,a,c],[b,c,a],[c,a,b],[c,b,a]}"
proof -
  have "length cs = 3" using assms by (metis length_Cons list.size(3) numeral_3_eq_3 size_mset)
  then obtain x y z where cs: "cs = [x,y,z]"
    by (metis (no_types, opaque_lifting) length_0_conv length_Suc_conv numeral_3_eq_3)
  show ?thesis using assms unfolding cs
    by (auto simp: add_eq_conv_ex)
qed

lemma fetchModels_frame:
  "fetchModels r s = s\<lparr>models := models (fetchModels r s), query_store.error := query_store.error (fetchModels r s)\<rparr>"
  by (simp add: fetchModels_def split: sum.splits)

lemma fetchJobs_frame:
  "fetchJobs r s = s\<lparr>jobs := jobs (fetchJobs r s), query_store.error := query_store.error (fetchJobs r s)\<rparr>"
  by (simp add: fetchJobs_def split: sum.splits)

lemma fetchKnowledgeBases_frame:
  "fetchKnowledgeBases r s = s\<lparr>knowledgeBases := knowledgeBases (fetchKnowledgeBases r s),
      query_store.error := query_store.error (fetchKnowledgeBases r s)\<rparr>"
  by (simp add: fetchKnowledgeBases_def split: sum.splits)

lemma refresh_catalogs:
  "models (fetchModels rm s) = (case rm of Inr ms \<Rightarrow> ms | Inl e \<Rightarrow> models s)"
  "models (fetchJobs rj s) = models s"
  "models (fetchKnowledgeBases rk s) = models s"
  "jobs (fetchModels rm s) = jobs s"
  "jobs (fetchJobs rj s) = (case rj of Inr js \<Rightarrow> js | Inl e \<Rightarrow> jobs s)"
  "jobs (fetchKnowledgeBases rk s) = jobs s"
  "knowledgeBases (fetchModels rm s) = knowledgeBases s"
  "knowledgeBases (fetchJobs rj s) = knowledgeBases s"
  "knowledgeBases (fetchKnowledgeBases rk s) = (case rk of Inr ks \<Rightarrow> ks | Inl e \<Rightarrow> knowledgeBases s)"
  by (simp_all add: fetchModels_def fetchJobs_def fetchKnowledgeBases_def split: sum.splits)

lemma settle_three:
  assumes "mset cs = mset [FetchModels rm, FetchJobs rj, FetchKnowledgeBases rk]"
  shows "models (settle_all cs s) = (case rm of Inr ms \<Rightarrow> ms | Inl e \<Rightarrow> models s)"
    and "jobs (settle_all cs s) = (case rj of Inr js \<Rightarrow> js | Inl e \<Rightarrow> jobs s)"
    and "knowledgeBases (settle_all cs s) = (case rk of Inr ks \<Rightarrow> ks | Inl e \<Rightarrow> knowledgeBases s)"
  using perm3 [OF assms]
  by (auto simp: refresh_catalogs split: sum.splits)

text \<open>
  C8: each of \<open>fetchModels\<close>, \<open>fetchJobs\<close> and \<open>fetchKnowledgeBases\<close> changes only its
  own catalog and the shared error field, and the error field only on failure; when the
  three are run in any order, every one that succeeded leaves exactly its fetched list in
  its catalog, whatever happened to the others (a failed one leaves its catalog as it was).
\<close>

theorem catalog_refreshes_independent:
  "fetchModels rm s = s\<lparr>models := models (fetchModels rm s),
      query_store.error := query_store.error (fetchModels rm s)\<rparr> \<and>
   fetchJobs rj s = s\<lparr>jobs := jobs (fetchJobs rj s),
      query_store.error := query_store.error (fetchJobs rj s)\<rparr> \<and>
   fetchKnowledgeBases rk s = s\<lparr>knowledgeBases := knowledgeBases (fetchKnowledgeBases rk s),
      query_store.error := query_store.error (fetchKnowledgeBases rk s)\<rparr> \<and>
   query_store.error (fetchModels (Inr ms) s) = query_store.error s \<and>
   query_store.error (fetchJobs (Inr js) s) = query_store.error s \<and>
   query_store.error (fetchKnowledgeBases (Inr ks) s) = query_store.error s \<and>
   (mset cs = mset [FetchModels rm, FetchJobs rj, FetchKnowledgeBases rk] \<longrightarrow>
      models (settle_all cs s) = (case rm of Inr ms' \<Rightarrow> ms' | Inl e \<Rightarrow> models s) \<and>
      jobs (settle_all cs s) = (case rj of Inr js' \<Rightarrow> js' | Inl e \<Rightarrow> jobs s) \<and>
      knowledgeBases (settle_all cs s) =
        (case rk of Inr ks' \<Rightarrow> ks' | Inl e \<Rightarrow> knowledgeBases s))"
proof -
  have e: "query_store.error (fetchModels (Inr ms) s) = query_store.error s"
    "query_store.error (fetchJobs (Inr js) s) = query_store.error s"
    "query_store.error (fetchKnowledgeBases (Inr ks) s) = query_store.error s"
    by (simp_all add: fetchModels_def fetchJobs_def fetchKnowledgeBases_def)
  show ?thesis
    using fetchModels_frame [of rm s] fetchJobs_frame [of rj s]
      fetchKnowledgeBases_frame [of rk s] e settle_three [of cs rm rj rk s]
    by blast
qed

theorem catalog_refreshes_independent_witness:
  "mset [FetchJobs (Inl network_error), FetchKnowledgeBases (Inr [docs_kb]),
         FetchModels (Inr [churn_model])] =
   mset [FetchModels (Inr [churn_model]), FetchJobs (Inl network_error),
         FetchKnowledgeBases (Inr [docs_kb])] \<and>
   models (settle_all [FetchJobs (Inl network_error), FetchKnowledgeBases (Inr [docs_kb]),
                       FetchModels (Inr [churn_model])] init_query_store) = [churn_model] \<and>
   knowledgeBases (settle_all [FetchJobs (Inl network_error), FetchKnowledgeBases (Inr [docs_kb]),
                       FetchModels (Inr [churn_model])] init_query_store) = [docs_kb] \<and>
   jobs (settle_all [FetchJobs (Inl network_error), FetchKnowledgeBases (Inr [docs_kb]),
                       FetchModels (Inr [churn_model])] init_query_store) = []"
proof -
  have p: "mset [FetchJobs (Inl network_error), FetchKnowledgeBases (Inr [docs_kb]),
         FetchModels (Inr [churn_model])] =
     mset [FetchModels (Inr [churn_model]), FetchJobs (Inl network_error),
         FetchKnowledgeBases (Inr [docs_kb])]"
    by simp
  show ?thesis
    using p catalog_refreshes_independent
      [of "Inr [churn_model]" init_query_store "Inl network_error" "Inr [docs_kb]" _ _ _
          "[FetchJobs (Inl network_error), FetchKnowledgeBases (Inr [docs_kb]),
            FetchModels (Inr [churn_model])]"]
    by (simp add: init_query_store_def)
qed

section \<open>Datasource store: properties\<close>

lemmas selectTable_defs = selectTable_def selectTable_begin_def selectTable_resume_def
  selectTable_observable_def selectTable_requests_def

lemma promise_all2_cases:
  "(\<exists>a b. r1 = Inr a \<and> r2 = Inr b \<and> promise_all2 f r1 r2 = Inr (a, b)) \<or>
   (\<exists>e. (r1 = Inl e \<or> r2 = Inl e) \<and> promise_all2 f r1 r2 = Inl e)"
  by (cases r1; cases r2; simp)

text \<open>
  C3: with a datasource selected, \<open>selectTable\<close> sets both \<open>tableSchema\<close> and
  \<open>tableData\<close> to the fetched values when both fetches succeed; when either fails, both
  keep their prior values and the call ends with the selected table set, the busy flag
  down and the error field holding the message of a failed fetch, nothing else changed.
  In every state observable during or after the call the two fields are either both as
  before or both the newly fetched values.
\<close>

theorem selectTable_both_or_neither:
  assumes "selectedDatasource s = Some d"
  shows "(schemaResp = Inr sch \<and> dataResp = Inr dat \<longrightarrow>
           tableSchema (selectTable t f schemaResp dataResp s) = Some sch \<and>
           tableData (selectTable t f schemaResp dataResp s) = Some dat) \<and>
         (isl schemaResp \<or> isl dataResp \<longrightarrow>
           (\<exists>e. (schemaResp = Inl e \<or> dataResp = Inl e) \<and>
              selectTable t f schemaResp dataResp s =
                s\<lparr>selectedTable := Some t, loading := False,
                  error := Some (detail_or_message e ''Failed to fetch table info'')\<rparr>)) \<and>
         (\<forall>x \<in> set (selectTable_observable t f schemaResp dataResp s).
            (tableSchema x = tableSchema s \<and> tableData x = tableData s) \<or>
            (\<exists>sch' dat'. schemaResp = Inr sch' \<and> dataResp = Inr dat' \<and>
                tableSchema x = Some sch' \<and> tableData x = Some dat'))"
  using assms promise_all2_cases [of schemaResp dataResp f]
  by (auto simp: selectTable_defs)

theorem selectTable_both_or_neither_witness:
  "selectedDatasource browsing_store = Some mysql_db \<and> isl (Inl network_error :: api_error + TableData) \<and>
   tableSchema (selectTable ''customers'' False (Inr customers_schema) (Inl network_error) browsing_store)
     = Some orders_schema \<and>
   tableData (selectTable ''customers'' False (Inr customers_schema) (Inl network_error) browsing_store)
     = Some orders_sample \<and>
   error (selectTable ''customers'' False (Inr customers_schema) (Inl network_error) browsing_store)
     = Some ''Network Error''"
  using selectTable_both_or_neither [of browsing_store mysql_db "Inr customers_schema" _
     "Inl network_error" _ "''customers''" False]
  by (simp add: browsing_store_def init_datasources_store_def network_error_def
      detail_or_message_def or_default_def js_or_def truthy_def)

text \<open>
  C9: with no datasource selected, \<open>selectTable\<close> returns at once: it issues no
  request and the store, with \<open>selectedTable\<close>, \<open>tableSchema\<close>, \<open>tableData\<close>,
  \<open>loading\<close> and \<open>error\<close>, is unchanged; the only observable state is the initial one.
\<close>

theorem selectTable_without_datasource:
  assumes "selectedDatasource s = None"
  shows "selectTable t f schemaResp dataResp s = s \<and>
         selectTable_requests t s = [] \<and>
         selectTable_observable t f schemaResp dataResp s = [s]"
  using assms by (simp add: selectTable_defs)

theorem selectTable_without_datasource_witness:
  "selectedDatasource init_datasources_store = None \<and>
   selectTable ''orders'' False (Inr orders_schema) (Inr orders_sample) init_datasources_store
     = init_datasources_store \<and>
   selectTable_requests ''orders'' init_datasources_store = []"
  using selectTable_without_datasource [of init_datasources_store "''orders''" False
      "Inr orders_schema" "Inr orders_sample"]
  by (simp add: init_datasources_store_def)

lemmas deleteDatasource_defs = deleteDatasource_def deleteDatasource_begin_def
  deleteDatasource_resume_def

text \<open>
  C5: while \<open>deleteDatasource name\<close> is pending, the catalog and the selection are as
  before. On success it returns true, no catalog entry named \<open>name\<close> remains (the other
  entries are kept), and if the deleted source was the selection then
  \<open>selectedDatasource\<close>, \<open>tables\<close>, \<open>selectedTable\<close>, \<open>tableSchema\<close> and
  \<open>tableData\<close> are all cleared in that same step, so the selection never names the
  deleted source afterwards. On failure it returns false and the catalog is unchanged.
\<close>

theorem deleteDatasource_effect:
  "datasources (fst (deleteDatasource_begin name s)) = datasources s \<and>
   selectedDatasource (fst (deleteDatasource_begin name s)) = selectedDatasource s \<and>
   tableSchema (fst (deleteDatasource_begin name s)) = tableSchema s \<and>
   tableData (fst (deleteDatasource_begin name s)) = tableData s \<and>
   fst (deleteDatasource name (Inr ack) s) \<and>
   (\<forall>d \<in> set (datasources (snd (deleteDatasource name (Inr ack) s))). ds_name d \<noteq> name) \<and>
   datasources (snd (deleteDatasource name (Inr ack) s)) =
     filter (\<lambda>ds. ds_name ds \<noteq> name) (datasources s) \<and>
   (selectedDatasource s = Some d \<and> ds_name d = name \<longrightarrow>
      selectedDatasource (snd (deleteDatasource name (Inr ack) s)) = None \<and>
      tables (snd (deleteDatasource name (Inr ack) s)) = [] \<and>
      selectedTable (snd (deleteDatasource name (Inr ack) s)) = None \<and>
      tableSchema (snd (deleteDatasource name (Inr ack) s)) = None \<and>
      tableData (snd (deleteDatasource name (Inr ack) s)) = None) \<and>
   (selectedDatasource (snd (deleteDatasource name (Inr ack) s)) = Some d' \<longrightarrow> ds_name d' \<noteq> name) \<and>
   \<not> fst (deleteDatasource name (Inl e) s) \<and>
   datasources (snd (deleteDatasource name (Inl e) s)) = datasources s"
  by (auto simp: deleteDatasource_defs Let_def split: option.splits)

theorem deleteDatasource_effect_witness:
  "selectedDatasource browsing_store = Some mysql_db \<and> ds_name mysql_db = ''mysql_db'' \<and>
   datasources (snd (deleteDatasource ''mysql_db'' (Inr ''deleted'') browsing_store)) = [analytics_pg] \<and>
   selectedDatasource (snd (deleteDatasource ''mysql_db'' (Inr ''deleted'') browsing_store)) = None \<and>
   tableSchema (snd (deleteDatasource ''mysql_db'' (Inr ''deleted'') browsing_store)) = None \<and>
   tableData (snd (deleteDatasource ''mysql_db'' (Inr ''deleted'') browsing_store)) = None"
  using deleteDatasource_effect [of "''mysql_db''" browsing_store "''deleted''" mysql_db]
  by (simp add: browsing_store_def init_datasources_store_def mysql_db_def analytics_pg_def)

text \<open>
  C6 (amended): \<open>fetchDatasources\<close>, \<open>createDatasource\<close>, \<open>deleteDatasource\<close>,
  \<open>fetchTables\<close> and, when a datasource is selected, \<open>selectTable\<close> raise the busy flag
  and clear the prior error before their request, and lower the busy flag when they
  complete. \<open>fetchTypes\<close> does neither: it leaves the busy flag and the prior error as
  they are before its request, and never changes the busy flag.
\<close>

theorem busy_flag_and_error_reset:
  "loading (fst (fetchDatasources_begin s)) \<and>
   error (fst (fetchDatasources_begin s)) = None \<and>
   \<not> loading (fetchDatasources listResp s) \<and>
   loading (fst (createDatasource_begin name engine parameters s)) \<and>
   error (fst (createDatasource_begin name engine parameters s)) = None \<and>
   \<not> loading (snd (createDatasource name engine parameters createResp s)) \<and>
   loading (fst (deleteDatasource_begin name s)) \<and>
   error (fst (deleteDatasource_begin name s)) = None \<and>
   \<not> loading (snd (deleteDatasource name deleteResp s)) \<and>
   loading (fst (fetchTables_begin name s)) \<and>
   error (fst (fetchTables_begin name s)) = None \<and>
   \<not> loading (fetchTables name tablesResp s) \<and>
   (selectedDatasource s \<noteq> None \<longrightarrow>
      map_option (\<lambda>(s1, reqs). (loading s1, error s1)) (selectTable_begin t s) = Some (True, None) \<and>
      \<not> loading (selectTable t f schemaResp dataResp s)) \<and>
   loading (fst (fetchTypes_begin s)) = loading s \<and>
   error (fst (fetchTypes_begin s)) = error s \<and>
   loading (fetchTypes typesResp s) = loading s"
proof -
  have a: "loading (fst (fetchDatasources_begin s)) \<and>
     error (fst (fetchDatasources_begin s)) = None \<and>
     \<not> loading (fetchDatasources listResp s)"
    by (simp add: fetchDatasources_def fetchDatasources_begin_def fetchDatasources_resume_def)
  have b: "loading (fst (createDatasource_begin name engine parameters s)) \<and>
     error (fst (createDatasource_begin name engine parameters s)) = None \<and>
     \<not> loading (snd (createDatasource name engine parameters createResp s))"
    by (simp add: createDatasource_def createDatasource_begin_def createDatasource_resume_def
        split: sum.splits)
  have c: "loading (fst (deleteDatasource_begin name s)) \<and>
     error (fst (deleteDatasource_begin name s)) = None \<and>
     \<not> loading (snd (deleteDatasource name deleteResp s))"
    by (simp add: deleteDatasource_defs Let_def split: sum.splits)
  have d: "loading (fst (fetchTables_begin name s)) \<and>
     error (fst (fetchTables_begin name s)) = None \<and>
     \<not> loading (fetchTables name tablesResp s)"
    by (simp add: fetchTables_def fetchTables_begin_def fetchTables_resume_def)
  have e: "selectedDatasource s \<noteq> None \<longrightarrow>
      map_option (\<lambda>(s1, reqs). (loading s1, error s1)) (selectTable_begin t s) = Some (True, None) \<and>
      \<not> loading (selectTable t f schemaResp dataResp s)"
    by (auto simp: selectTable_defs)
  have g: "loading (fst (fetchTypes_begin s)) = loading s \<and>
     error (fst (fetchTypes_begin s)) = error s \<and>
     loading (fetchTypes typesResp s) = loading s"
    by (simp add: fetchTypes_def fetchTypes_begin_def fetchTypes_resume_def split: sum.splits)
  show ?thesis
    using a b c d e g by blast
qed

text \<open>
  C6 as stated fails for \<open>fetchTypes\<close>: at its request the busy flag is down and an
  earlier error is still in place. It also fails for \<open>selectTable\<close> when nothing is
  selected: the call returns at its guard and the earlier error stays.
\<close>

theorem busy_flag_and_error_reset_counterexample:
  "\<not> loading (fst (fetchTypes_begin stale_error_store)) \<and>
   error (fst (fetchTypes_begin stale_error_store)) = Some ''Failed to fetch data sources'' \<and>
   selectTable_begin ''orders'' stale_error_store = None \<and>
   error (selectTable ''orders'' False (Inr orders_schema) (Inr orders_sample) stale_error_store) =
     Some ''Failed to fetch data sources''"
  by (simp add: fetchTypes_begin_def selectTable_def selectTable_begin_def stale_error_store_def
      init_datasources_store_def)

theorem busy_flag_and_error_reset_witness:
  "selectedDatasource browsing_store \<noteq> None \<and>
   map_option fst (selectTable_begin ''customers'' browsing_store) =
     Some (browsing_store\<lparr>selectedTable := Some ''customers'', loading := True, error := None\<rparr>) \<and>
   \<not> loading (selectTable ''customers'' False (Inr customers_schema) (Inr orders_sample) browsing_store)"
  using busy_flag_and_error_reset [of browsing_store _ _ _ _ _ _ _ "''customers''" False
      "Inr customers_schema" "Inr orders_sample"]
  by (simp add: browsing_store_def init_datasources_store_def selectTable_begin_def)

lemma mset_insert_by: "mset (insert_by cmp x xs) = add_mset x (mset xs)"
  by (induction xs) auto

lemma mset_sort_by: "mset (sort_by cmp xs) = mset xs"
  by (induction xs) (auto simp: mset_insert_by)

lemma set_insert_by: "set (insert_by cmp x xs) = insert x (set xs)"
  by (induction xs) auto

lemma sorted_insert_by:
  assumes total: "\<And>a b. 0 < cmp a b \<Longrightarrow> cmp b a \<le> 0"
    and trans: "\<And>a b c. cmp a b \<le> 0 \<Longrightarrow> cmp b c \<le> 0 \<Longrightarrow> cmp a c \<le> 0"
  shows "sorted_wrt (\<lambda>a b. cmp a b \<le> 0) xs \<Longrightarrow> sorted_wrt (\<lambda>a b. cmp a b \<le> 0) (insert_by cmp x xs)"
proof (induction xs)
  case Nil
  then show ?case by simp
next
  case (Cons y ys)
  show ?case
  proof (cases "cmp x y \<le> 0")
    case True
    have "cmp x z \<le> 0" if "z \<in> set ys" for z
    proof -
      have "cmp y z \<le> 0" using Cons.prems that by simp
      with True show ?thesis by (rule trans)
    qed
    with True Cons.prems show ?thesis by simp
  next
    case False
    then have "cmp y x \<le> 0" using total [of x y] by simp
    moreover have "sorted_wrt (\<lambda>a b. cmp a b \<le> 0) (insert_by cmp x ys)"
      using Cons by simp
    ultimately show ?thesis using False Cons.prems by (simp add: set_insert_by)
  qed
qed

lemma sorted_sort_by:
  assumes total: "\<And>a b. 0 < cmp a b \<Longrightarrow> cmp b a \<le> 0"
    and trans: "\<And>a b c. cmp a b \<le> 0 \<Longrightarrow> cmp b c \<le> 0 \<Longrightarrow> cmp a c \<le> 0"
  shows "sorted_wrt (\<lambda>a b. cmp a b \<le> 0) (sort_by cmp xs)"
proof (induction xs)
  case Nil
  show ?case by simp
next
  case (Cons x xs)
  show ?case using sorted_insert_by [OF total trans Cons.IH] by simp
qed

lemma sortedDatasources_eq:
  "sortedDatasources lc s =
     (sort_by (\<lambda>a b. lc (ds_name a) (ds_name b)) (datasources s), s)"
  by (simp add: sortedDatasources_def array_spread_def array_new_def array_sort_def)

text \<open>
  C10: \<open>sortedDatasources\<close> returns a permutation of the catalog and leaves the stored
  catalog and every other field of the store unchanged; the result is sorted by name in
  the order of \<open>localeCompare\<close>, for any \<open>localeCompare\<close> that is a consistent
  comparator (total and transitive).
\<close>

theorem sortedDatasources_sorted_permutation:
  "mset (fst (sortedDatasources localeCompare s)) = mset (datasources s) \<and>
   datasources (snd (sortedDatasources localeCompare s)) = datasources s \<and>
   snd (sortedDatasources localeCompare s) = s \<and>
   ((\<forall>a b. 0 < localeCompare a b \<longrightarrow> localeCompare b a \<le> 0) \<and>
    (\<forall>a b c. localeCompare a b \<le> 0 \<and> localeCompare b c \<le> 0 \<longrightarrow> localeCompare a c \<le> 0) \<longrightarrow>
    sorted_wrt (\<lambda>a b. localeCompare (ds_name a) (ds_name b) \<le> 0)
      (fst (sortedDatasources localeCompare s)))"
proof -
  have "sorted_wrt (\<lambda>a b. localeCompare (ds_name a) (ds_name b) \<le> 0)
      (sort_by (\<lambda>a b. localeCompare (ds_name a) (ds_name b)) (datasources s))"
    if t: "\<forall>a b. 0 < localeCompare a b \<longrightarrow> localeCompare b a \<le> 0"
    and tr: "\<forall>a b c. localeCompare a b \<le> 0 \<and> localeCompare b c \<le> 0 \<longrightarrow> localeCompare a c \<le> 0"
  proof (rule sorted_sort_by)
    show "\<And>a b. 0 < localeCompare (ds_name a) (ds_name b) \<Longrightarrow> localeCompare (ds_name b) (ds_name a) \<le> 0"
      using t by blast
    show "\<And>a b c. localeCompare (ds_name a) (ds_name b) \<le> 0 \<Longrightarrow>
        localeCompare (ds_name b) (ds_name c) \<le> 0 \<Longrightarrow> localeCompare (ds_name a) (ds_name c) \<le> 0"
      using tr by blast
  qed
  then have srt: "(\<forall>a b. 0 < localeCompare a b \<longrightarrow> localeCompare b a \<le> 0) \<and>
    (\<forall>a b c. localeCompare a b \<le> 0 \<and> localeCompare b c \<le> 0 \<longrightarrow> localeCompare a c \<le> 0) \<longrightarrow>
    sorted_wrt (\<lambda>a b. localeCompare (ds_name a) (ds_name b) \<le> 0)
      (fst (sortedDatasources localeCompare s))"
    unfolding sortedDatasources_eq fst_conv by blast
  have perm: "mset (fst (sortedDatasources localeCompare s)) = mset (datasources s)"
    by (simp add: sortedDatasources_eq mset_sort_by)
  have frame: "snd (sortedDatasources localeCompare s) = s"
    by (simp add: sortedDatasources_eq)
  have log: "datasources (snd (sortedDatasources localeCompare s)) = datasources s"
    by (simp add: frame)
  show ?thesis
    by (intro conjI) (rule perm, rule log, rule frame, rule srt)
qed

lemma code_unit_compare_consistent:
  "(\<forall>a b. 0 < code_unit_compare a b \<longrightarrow> code_unit_compare b a \<le> 0) \<and>
   (\<forall>a b c. code_unit_compare a b \<le> 0 \<and> code_unit_compare b c \<le> 0 \<longrightarrow> code_unit_compare a c \<le> 0)"
proof (intro conjI allI impI)
  fix a b :: string
  assume "0 < code_unit_compare a b"
  then have "b < a" by (auto simp: code_unit_compare_def split: if_splits)
  then show "code_unit_compare b a \<le> 0" by (simp add: code_unit_compare_def)
next
  fix a b c :: string
  assume "code_unit_compare a b \<le> 0 \<and> code_unit_compare b c \<le> 0"
  then have "a \<le> b" "b \<le> c" by (auto simp: code_unit_compare_def split: if_splits)
  then have "a \<le> c" by simp
  then show "code_unit_compare a c \<le> 0" by (auto simp: code_unit_compare_def)
qed

lemma ex_sorted: "fst (sortedDatasources code_unit_compare browsing_store) = [analytics_pg, mysql_db]"
  by (simp add: sortedDatasources_eq browsing_store_def init_datasources_store_def
      code_unit_compare_def mysql_db_def analytics_pg_def)

theorem sortedDatasources_sorted_permutation_witness:
  "fst (sortedDatasources code_unit_compare browsing_store) = [analytics_pg, mysql_db] \<and>
   sorted_wrt (\<lambda>a b. code_unit_compare (ds_name a) (ds_name b) \<le> 0)
     (fst (sortedDatasources code_unit_compare browsing_store)) \<and>
   datasources (snd (sortedDatasources code_unit_compare browsing_store)) = [mysql_db, analytics_pg]"
proof -
  note t = sortedDatasources_sorted_permutation [of code_unit_compare browsing_store]
  have s: "sorted_wrt (\<lambda>a b. code_unit_compare (ds_name a) (ds_name b) \<le> 0)
     (fst (sortedDatasources code_unit_compare browsing_store))"
    using t code_unit_compare_consistent by blast
  have "datasources (snd (sortedDatasources code_unit_compare browsing_store)) =
      datasources browsing_store"
    using t by blast
  then have d: "datasources (snd (sortedDatasources code_unit_compare browsing_store)) =
      [mysql_db, analytics_pg]"
    by (simp add: browsing_store_def)
  show ?thesis
    by (intro conjI) (rule ex_sorted, rule s, rule d)
qed

section \<open>SQL preview: properties\<close>

text \<open>
  C2: for target \<open>cached_data\<close>, source database \<open>mysql_db\<close>, source table
  \<open>orders\<close>, no columns, no predicate and no limit the preview is the three-line
  statement with \<open>SELECT *\<close>; with columns id and amount, predicate \<open>amount > 100\<close>
  and limit 50 it is the same template with \<open>SELECT id, amount\<close>, then a WHERE line, then
  a LIMIT line, ended by one semicolon; and whenever the target name, the source
  database or the source table is missing (empty), it is the placeholder text.
\<close>

theorem sqlPreview_examples:
  "sqlPreview ''cached_data'' ''mysql_db'' ''orders'' [] [] None =
     ''CREATE TABLE mindsdb.cached_data AS'' @ [CHR 0x0A] @ ''SELECT *'' @ [CHR 0x0A] @
     ''FROM mysql_db.orders;'' \<and>
   sqlPreview ''cached_data'' ''mysql_db'' ''orders'' [''id'', ''amount''] ''amount > 100'' (Some 50) =
     ''CREATE TABLE mindsdb.cached_data AS'' @ [CHR 0x0A] @ ''SELECT id, amount'' @ [CHR 0x0A] @
     ''FROM mysql_db.orders'' @ [CHR 0x0A] @ ''WHERE amount > 100'' @ [CHR 0x0A] @ ''LIMIT 50;'' \<and>
   (tableName = [] \<or> selectedDatabase = [] \<or> tbl = [] \<longrightarrow>
      sqlPreview tableName selectedDatabase tbl cols whereClause limitRows =
        ''-- Fill in the form to generate SQL'')"
proof -
  have n: "string_of_nat 50 = ''50''" by code_simp
  show ?thesis
    by (simp add: sqlPreview_def placeholder_def newline_def number_to_string_def n)
qed

theorem sqlPreview_examples_witness:
  "sqlPreview ''cached_data'' [] ''orders'' [''id''] ''id > 1'' (Some 5) =
     ''-- Fill in the form to generate SQL''"
  using sqlPreview_examples [of "''cached_data''" "[]" "''orders''" "[''id'']" "''id > 1''" "Some 5"]
  by simp

end
